theory Spec2Isabelle
  imports Main "HOL-Library.AList"
begin

section \<open>The persistent store (drizzle/schema.ts, server/db.ts)\<close>

text \<open>
  The store is a MySQL database reached through drizzle. Each table is modelled as the
  list of its rows, in insertion order. Times (\<open>Date.now()\<close>, \<open>new Date()\<close>, the
  column default \<open>now()\<close>) are natural numbers, in milliseconds; every function that
  reads the clock takes the reading as an argument.

  Only the columns that some modelled function writes or reads are kept; the columns
  no function of the repository ever writes (\<open>lwm2mVersion\<close>, \<open>firmwareVersion\<close>,
  \<open>groupId\<close>, \<open>location\<close>, \<open>tags\<close>, \<open>updatedAt\<close>) are left out.
\<close>

type_synonym timestamp = nat

datatype gateway_status = Online | Offline | Error

datatype command_type = Read | Write | Execute

datatype command_status = Pending | Sent | Success | Failed

datatype alert_type =
    AlertOffline | LowSignal | HighErrorRate | FirmwareMismatch | SimChange
  | ConnectivityLost | Custom

datatype severity = Info | Warning | Critical

text \<open>Table \<open>gateways\<close>: \<open>status\<close> defaults to \<open>offline\<close>, \<open>lastSeen\<close> to NULL.\<close>

record gateway =
  gw_id :: string
  gw_name :: string
  gw_endpoint :: string
  gw_ipAddress :: "string option"
  gw_status :: gateway_status
  gw_lastSeen :: "timestamp option"
  gw_serialNumber :: "string option"
  gw_ownerId :: string
  gw_createdAt :: timestamp

text \<open>
  Table \<open>lwm2m_resource_values\<close>. The column \<open>timestamp\<close> is filled by every insert
  (the caller's value, or the column default \<open>now()\<close>).
\<close>

record resource_value =
  rv_id :: string
  rv_resourceId :: string
  rv_gatewayId :: string
  rv_value :: string
  rv_timestamp :: timestamp

text \<open>Table \<open>lwm2m_commands\<close>: \<open>status\<close> defaults to \<open>pending\<close>.\<close>

record command =
  cmd_id :: string
  cmd_gatewayId :: string
  cmd_resourceId :: string
  cmd_commandType :: command_type
  cmd_value :: "string option"
  cmd_status :: command_status
  cmd_error :: "string option"
  cmd_createdAt :: timestamp
  cmd_completedAt :: "timestamp option"

text \<open>Table \<open>alerts\<close>: \<open>isResolved\<close> defaults to \<open>false\<close>, \<open>resolvedAt\<close> to NULL.\<close>

record alert =
  al_id :: string
  al_gatewayId :: string
  al_alertType :: alert_type
  al_severity :: severity
  al_message :: string
  al_isResolved :: bool
  al_createdAt :: timestamp
  al_resolvedAt :: "timestamp option"

record database =
  gateways :: "gateway list"
  lwm2mResourceValues :: "resource_value list"
  lwm2mCommands :: "command list"
  alerts :: "alert list"

definition empty_database :: database where
  "empty_database =
     \<lparr>gateways = [], lwm2mResourceValues = [], lwm2mCommands = [], alerts = []\<rparr>"

text \<open>
  \<open>getDb()\<close> returns \<open>null\<close> when no \<open>DATABASE_URL\<close> is configured. The store a
  function works on is therefore a \<open>database option\<close>, \<open>None\<close> for the missing
  database; every function of db.ts starts with \<open>if (!db) return ...\<close>.

  The query helpers: \<open>.where(...)\<close> is \<open>filter\<close>; \<open>.orderBy(col)\<close> sorts in
  ascending order, the direction of SQL's ORDER BY when none is given (rows with equal
  keys keep their table order here; SQL leaves their order open); \<open>.limit(n)\<close> keeps
  the first \<open>n\<close> rows; \<open>result.length > 0 ? result[0] : null\<close> is \<open>first_row\<close>.
  Strings are compared by equality, character for character.

  An \<open>insert\<close> throws when the row breaks a constraint the schema declares: the
  primary key \<open>id\<close> of every table, the UNIQUE \<open>endpoint\<close> of \<open>gateways\<close>, and
  the width of a \<open>varchar(n)\<close> column, which a string of more than \<open>n\<close> characters
  does not fit (MySQL rejects it in its default strict mode; without strict mode it
  stores the string cut to \<open>n\<close> characters, and for an \<open>id\<close> the read-back by the
  full id then finds no row). Columns of type \<open>text\<close> have no declared width. Every
  function of db.ts that inserts catches the exception, logs it and returns \<open>null\<close>.
  An \<open>update\<close> of db.ts writes no key; the one \<open>varchar\<close> it writes is
  \<open>ipAddress\<close>, which the server takes from the datagram's source address. Failures
  of the database engine itself (a lost connection) are outside the model.
\<close>

definition varchar :: "nat \<Rightarrow> string \<Rightarrow> bool" where
  "varchar n s = (length s \<le> n)"

definition varchar_opt :: "nat \<Rightarrow> string option \<Rightarrow> bool" where
  "varchar_opt n s = (case s of None \<Rightarrow> True | Some x \<Rightarrow> length x \<le> n)"

definition orderBy :: "('r \<Rightarrow> nat) \<Rightarrow> 'r list \<Rightarrow> 'r list" where
  "orderBy col rows = sort_key col rows"

definition limit :: "nat \<Rightarrow> 'r list \<Rightarrow> 'r list" where
  "limit n rows = take n rows"

fun first_row :: "'r list \<Rightarrow> 'r option" where
  "first_row [] = None"
| "first_row (r # rs) = Some r"

subsection \<open>Resource values\<close>

text \<open>The argument object of \<open>recordResourceValue\<close>; \<open>timestamp\<close> is optional.\<close>

record resource_value_input =
  rvi_id :: string
  rvi_resourceId :: string
  rvi_gatewayId :: string
  rvi_value :: string
  rvi_timestamp :: "timestamp option"

text \<open>
  \<open>recordResourceValue\<close>: the insert throws on a value wider than its
  \<open>varchar(64)\<close> column (\<open>id\<close>, \<open>resourceId\<close>, \<open>gatewayId\<close>) and on a duplicate
  primary key, the function catches it and returns \<open>null\<close>; otherwise the row is
  appended and read back by id.
\<close>

definition recordResourceValue ::
  "database option \<Rightarrow> resource_value_input \<Rightarrow> timestamp
     \<Rightarrow> resource_value option \<times> database option" where
  "recordResourceValue dbo v now =
     (case dbo of
        None \<Rightarrow> (None, None)
      | Some d \<Rightarrow>
          if \<not> (varchar 64 (rvi_id v) \<and> varchar 64 (rvi_resourceId v)
                \<and> varchar 64 (rvi_gatewayId v))
          then (None, Some d)
          else if list_ex (\<lambda>r. rv_id r = rvi_id v) (lwm2mResourceValues d)
          then (None, Some d)
          else
            let row = \<lparr>rv_id = rvi_id v, rv_resourceId = rvi_resourceId v,
                       rv_gatewayId = rvi_gatewayId v, rv_value = rvi_value v,
                       rv_timestamp = (case rvi_timestamp v of None \<Rightarrow> now | Some t \<Rightarrow> t)\<rparr>;
                d' = d\<lparr>lwm2mResourceValues := lwm2mResourceValues d @ [row]\<rparr>
            in (first_row (limit 1 (filter (\<lambda>r. rv_id r = rvi_id v) (lwm2mResourceValues d'))),
                Some d'))"

text \<open>
  \<open>getLatestResourceValue\<close>:
  \<^verbatim>\<open>db.select().from(lwm2mResourceValues)
     .where(eq(lwm2mResourceValues.resourceId, resourceId))
     .orderBy((t) => t.timestamp).limit(1)\<close>
  and then \<open>result.length > 0 ? result[0] : null\<close>.
\<close>

definition getLatestResourceValue :: "database option \<Rightarrow> string \<Rightarrow> resource_value option" where
  "getLatestResourceValue dbo resourceId =
     (case dbo of
        None \<Rightarrow> None
      | Some d \<Rightarrow>
          first_row (limit 1 (orderBy rv_timestamp
            (filter (\<lambda>r. rv_resourceId r = resourceId) (lwm2mResourceValues d)))))"


text \<open>
  The router's \<open>resources.setValue\<close> and \<open>resources.getValue\<close> procedures (the
  operator-facing entry points of the two functions). \<open>setValue\<close> builds the id from
  the resource id and \<open>Date.now()\<close> and passes no timestamp; the template literal
  prints the clock reading in decimal.
\<close>

datatype trpc_error = INTERNAL_SERVER_ERROR | NOT_FOUND

definition digit_char :: "nat \<Rightarrow> char" where
  "digit_char d = ''0123456789'' ! d"

fun string_of_nat :: "nat \<Rightarrow> string" where
  "string_of_nat n =
     (if n < 10 then [digit_char n]
      else string_of_nat (n div 10) @ [digit_char (n mod 10)])"

declare string_of_nat.simps [simp del]

definition resources_setValue ::
  "database option \<Rightarrow> string \<Rightarrow> string \<Rightarrow> string \<Rightarrow> timestamp \<Rightarrow> timestamp
     \<Rightarrow> (trpc_error + resource_value) \<times> database option" where
  "resources_setValue dbo resourceId gatewayId val now dbnow =
     (case recordResourceValue dbo
             \<lparr>rvi_id = resourceId @ ''-'' @ string_of_nat now, rvi_resourceId = resourceId,
              rvi_gatewayId = gatewayId, rvi_value = val, rvi_timestamp = None\<rparr> dbnow of
        (None, dbo') \<Rightarrow> (Inl INTERNAL_SERVER_ERROR, dbo')
      | (Some r, dbo') \<Rightarrow> (Inr r, dbo'))"

definition resources_getValue :: "database option \<Rightarrow> string \<Rightarrow> string \<Rightarrow> resource_value option" where
  "resources_getValue dbo resourceId gatewayId = getLatestResourceValue dbo resourceId"

subsection \<open>Commands\<close>

text \<open>The argument object of \<open>createCommand\<close>; \<open>value\<close> and \<open>status\<close> are optional.\<close>

record command_input =
  ci_id :: string
  ci_gatewayId :: string
  ci_resourceId :: string
  ci_commandType :: command_type
  ci_value :: "string option"
  ci_status :: "command_status option"

text \<open>
  \<open>createCommand\<close> inserts the row (no column of \<open>lwm2m_commands\<close> refers to
  \<open>gateways\<close>: the schema declares no foreign key) and reads it back by id. The
  columns \<open>id\<close>, \<open>gatewayId\<close> and \<open>resourceId\<close> are \<open>varchar(64)\<close>, \<open>value\<close>
  is \<open>text\<close>.
\<close>

definition createCommand ::
  "database option \<Rightarrow> command_input \<Rightarrow> timestamp \<Rightarrow> command option \<times> database option" where
  "createCommand dbo c now =
     (case dbo of
        None \<Rightarrow> (None, None)
      | Some d \<Rightarrow>
          if \<not> (varchar 64 (ci_id c) \<and> varchar 64 (ci_gatewayId c)
                \<and> varchar 64 (ci_resourceId c))
          then (None, Some d)
          else if list_ex (\<lambda>r. cmd_id r = ci_id c) (lwm2mCommands d) then (None, Some d)
          else
            let row = \<lparr>cmd_id = ci_id c, cmd_gatewayId = ci_gatewayId c,
                       cmd_resourceId = ci_resourceId c, cmd_commandType = ci_commandType c,
                       cmd_value = ci_value c,
                       cmd_status = (case ci_status c of None \<Rightarrow> Pending | Some s \<Rightarrow> s),
                       cmd_error = None, cmd_createdAt = now, cmd_completedAt = None\<rparr>;
                d' = d\<lparr>lwm2mCommands := lwm2mCommands d @ [row]\<rparr>
            in (first_row (limit 1 (filter (\<lambda>r. cmd_id r = ci_id c) (lwm2mCommands d'))),
                Some d'))"

definition getCommand :: "database option \<Rightarrow> string \<Rightarrow> command option" where
  "getCommand dbo cid =
     (case dbo of
        None \<Rightarrow> None
      | Some d \<Rightarrow> first_row (limit 1 (filter (\<lambda>r. cmd_id r = cid) (lwm2mCommands d))))"

text \<open>
  \<open>updateCommandStatus(id, status, error?)\<close>: \<open>if (error)\<close> holds for a given,
  non-empty string; \<open>completedAt\<close> is stamped for \<open>success\<close> and \<open>failed\<close>. The
  row's current status is not read.
\<close>

definition truthy :: "string option \<Rightarrow> bool" where
  "truthy s = (case s of None \<Rightarrow> False | Some x \<Rightarrow> x \<noteq> [])"

definition set_command_status ::
  "command_status \<Rightarrow> string option \<Rightarrow> timestamp \<Rightarrow> command \<Rightarrow> command" where
  "set_command_status status err now c =
     c\<lparr>cmd_status := status,
       cmd_error := (if truthy err then err else cmd_error c),
       cmd_completedAt :=
         (if status = Success \<or> status = Failed then Some now else cmd_completedAt c)\<rparr>"

definition updateCommandStatus ::
  "database option \<Rightarrow> string \<Rightarrow> command_status \<Rightarrow> string option \<Rightarrow> timestamp
     \<Rightarrow> database option" where
  "updateCommandStatus dbo cid status err now =
     (case dbo of
        None \<Rightarrow> None
      | Some d \<Rightarrow>
          Some (d\<lparr>lwm2mCommands :=
                    map (\<lambda>c. if cmd_id c = cid then set_command_status status err now c else c)
                      (lwm2mCommands d)\<rparr>))"

definition listPendingCommands :: "database option \<Rightarrow> string \<Rightarrow> command list" where
  "listPendingCommands dbo gatewayId =
     (case dbo of
        None \<Rightarrow> []
      | Some d \<Rightarrow>
          filter (\<lambda>c. cmd_gatewayId c = gatewayId \<and> cmd_status c = Pending) (lwm2mCommands d))"

text \<open>
  The router's \<open>commands\<close> procedures. \<open>commands.create\<close> builds the id
  \<open>cmd-<gatewayId>-<resourceId>-<Date.now()>\<close>, calls \<open>createCommand\<close> and throws
  \<open>INTERNAL_SERVER_ERROR\<close> when that returns \<open>null\<close>; it looks at no other table.
\<close>

definition commands_create ::
  "database option \<Rightarrow> string \<Rightarrow> string \<Rightarrow> command_type \<Rightarrow> string option
     \<Rightarrow> timestamp \<Rightarrow> timestamp \<Rightarrow> (trpc_error + command) \<times> database option" where
  "commands_create dbo gatewayId resourceId commandType val now dbnow =
     (let commandId = ''cmd-'' @ gatewayId @ ''-'' @ resourceId @ ''-'' @ string_of_nat now in
      case createCommand dbo
             \<lparr>ci_id = commandId, ci_gatewayId = gatewayId, ci_resourceId = resourceId,
              ci_commandType = commandType, ci_value = val, ci_status = None\<rparr> dbnow of
        (None, dbo') \<Rightarrow> (Inl INTERNAL_SERVER_ERROR, dbo')
      | (Some c, dbo') \<Rightarrow> (Inr c, dbo'))"

definition commands_get :: "database option \<Rightarrow> string \<Rightarrow> trpc_error + command" where
  "commands_get dbo cid =
     (case getCommand dbo cid of None \<Rightarrow> Inl NOT_FOUND | Some c \<Rightarrow> Inr c)"

definition commands_listPending :: "database option \<Rightarrow> string \<Rightarrow> command list" where
  "commands_listPending dbo gatewayId = listPendingCommands dbo gatewayId"

definition commands_updateStatus ::
  "database option \<Rightarrow> string \<Rightarrow> command_status \<Rightarrow> string option \<Rightarrow> timestamp
     \<Rightarrow> database option" where
  "commands_updateStatus dbo cid status err now = updateCommandStatus dbo cid status err now"

subsection \<open>Alerts\<close>

record alert_input =
  ali_id :: string
  ali_gatewayId :: string
  ali_alertType :: alert_type
  ali_severity :: severity
  ali_message :: string

text \<open>
  \<open>createAlert\<close> inserts the row and reads it back by id; it runs no query before.
  The columns \<open>id\<close> and \<open>gatewayId\<close> are \<open>varchar(64)\<close>, \<open>message\<close> is
  \<open>text\<close>.
\<close>

definition createAlert ::
  "database option \<Rightarrow> alert_input \<Rightarrow> timestamp \<Rightarrow> alert option \<times> database option" where
  "createAlert dbo a now =
     (case dbo of
        None \<Rightarrow> (None, None)
      | Some d \<Rightarrow>
          if \<not> (varchar 64 (ali_id a) \<and> varchar 64 (ali_gatewayId a))
          then (None, Some d)
          else if list_ex (\<lambda>r. al_id r = ali_id a) (alerts d) then (None, Some d)
          else
            let row = \<lparr>al_id = ali_id a, al_gatewayId = ali_gatewayId a,
                       al_alertType = ali_alertType a, al_severity = ali_severity a,
                       al_message = ali_message a, al_isResolved = False,
                       al_createdAt = now, al_resolvedAt = None\<rparr>;
                d' = d\<lparr>alerts := alerts d @ [row]\<rparr>
            in (first_row (limit 1 (filter (\<lambda>r. al_id r = ali_id a) (alerts d'))), Some d'))"

text \<open>
  \<open>listAlerts(gatewayId?, unresolved = false)\<close>: each condition is added when its
  argument is truthy, and the conditions are joined by \<open>and\<close>.
\<close>

definition listAlerts :: "database option \<Rightarrow> string option \<Rightarrow> bool \<Rightarrow> alert list" where
  "listAlerts dbo gatewayId unresolved =
     (case dbo of
        None \<Rightarrow> []
      | Some d \<Rightarrow>
          filter (\<lambda>a. (if truthy gatewayId then Some (al_gatewayId a) = gatewayId else True)
                     \<and> (if unresolved then al_isResolved a = False else True))
            (alerts d))"

text \<open>
  \<open>resolveAlert\<close>:
  \<^verbatim>\<open>db.update(alerts).set({ isResolved: true, resolvedAt: new Date() })
     .where(eq(alerts.id, alertId))\<close>
\<close>

definition resolveAlert :: "database option \<Rightarrow> string \<Rightarrow> timestamp \<Rightarrow> database option" where
  "resolveAlert dbo alertId now =
     (case dbo of
        None \<Rightarrow> None
      | Some d \<Rightarrow>
          Some (d\<lparr>alerts :=
                    map (\<lambda>a. if al_id a = alertId
                              then a\<lparr>al_isResolved := True, al_resolvedAt := Some now\<rparr>
                              else a)
                      (alerts d)\<rparr>))"

definition alerts_resolve :: "database option \<Rightarrow> string \<Rightarrow> timestamp \<Rightarrow> database option" where
  "alerts_resolve dbo alertId now = resolveAlert dbo alertId now"

subsection \<open>Gateways\<close>

record gateway_input =
  gi_id :: string
  gi_name :: string
  gi_endpoint :: string
  gi_ipAddress :: "string option"
  gi_ownerId :: string
  gi_serialNumber :: "string option"

definition createGateway ::
  "database option \<Rightarrow> gateway_input \<Rightarrow> timestamp \<Rightarrow> gateway option \<times> database option" where
  "createGateway dbo g now =
     (case dbo of
        None \<Rightarrow> (None, None)
      | Some d \<Rightarrow>
          if \<not> (varchar 64 (gi_id g) \<and> varchar 255 (gi_name g)
                \<and> varchar 255 (gi_endpoint g) \<and> varchar_opt 45 (gi_ipAddress g)
                \<and> varchar_opt 255 (gi_serialNumber g) \<and> varchar 64 (gi_ownerId g))
          then (None, Some d)
          else if list_ex (\<lambda>r. gw_id r = gi_id g \<or> gw_endpoint r = gi_endpoint g) (gateways d)
          then (None, Some d)
          else
            let row = \<lparr>gw_id = gi_id g, gw_name = gi_name g, gw_endpoint = gi_endpoint g,
                       gw_ipAddress = gi_ipAddress g, gw_status = Offline, gw_lastSeen = None,
                       gw_serialNumber = gi_serialNumber g, gw_ownerId = gi_ownerId g,
                       gw_createdAt = now\<rparr>;
                d' = d\<lparr>gateways := gateways d @ [row]\<rparr>
            in (first_row (limit 1 (filter (\<lambda>r. gw_id r = gi_id g) (gateways d'))), Some d'))"

definition getGateway :: "database option \<Rightarrow> string \<Rightarrow> gateway option" where
  "getGateway dbo gid =
     (case dbo of
        None \<Rightarrow> None
      | Some d \<Rightarrow> first_row (limit 1 (filter (\<lambda>r. gw_id r = gid) (gateways d))))"

definition getGatewayByEndpoint :: "database option \<Rightarrow> string \<Rightarrow> gateway option" where
  "getGatewayByEndpoint dbo ep =
     (case dbo of
        None \<Rightarrow> None
      | Some d \<Rightarrow> first_row (limit 1 (filter (\<lambda>r. gw_endpoint r = ep) (gateways d))))"

text \<open>
  \<open>updateGatewayStatus(id, status, ipAddress?)\<close> sets \<open>status\<close> and \<open>lastSeen\<close>, and
  \<open>ipAddress\<close> when one is given and non-empty.
\<close>

definition set_gateway_status ::
  "gateway_status \<Rightarrow> string option \<Rightarrow> timestamp \<Rightarrow> gateway \<Rightarrow> gateway" where
  "set_gateway_status status ipAddress now g =
     g\<lparr>gw_status := status, gw_lastSeen := Some now,
       gw_ipAddress := (if truthy ipAddress then ipAddress else gw_ipAddress g)\<rparr>"

definition updateGatewayStatus ::
  "database option \<Rightarrow> string \<Rightarrow> gateway_status \<Rightarrow> string option \<Rightarrow> timestamp
     \<Rightarrow> database option" where
  "updateGatewayStatus dbo gid status ipAddress now =
     (case dbo of
        None \<Rightarrow> None
      | Some d \<Rightarrow>
          Some (d\<lparr>gateways :=
                    map (\<lambda>g. if gw_id g = gid then set_gateway_status status ipAddress now g else g)
                      (gateways d)\<rparr>))"

section \<open>The LWM2M server (server/lwm2m.ts)\<close>

text \<open>
  The server object holds the map \<open>registeredClients\<close> (a JavaScript \<open>Map\<close>, kept
  here as an association list in insertion order: \<open>set\<close> is \<open>AList.update\<close>,
  \<open>delete\<close> is \<open>AList.delete\<close>, \<open>has\<close> and \<open>keys\<close> read it) and emits events,
  recorded in \<open>emitted\<close> in the order of the \<open>emit\<close> calls. The database is module
  state of db.ts; it travels with the server state as \<open>srv_db\<close>.

  Each handler is modelled as one step from the state before it to the state after it:
  the interleaving of two handlers at their \<open>await\<close> points, the log output and
  event listeners (none is registered in the repository) are not part of the model.
\<close>

record client =
  cl_endpoint :: string
  cl_lastSeen :: timestamp

datatype event =
    ClientRegistered string string string string
  | ClientUpdated string
  | ClientDeregistered string

record server =
  srv_db :: "database option"
  registeredClients :: "(string \<times> client) list"
  emitted :: "event list"

text \<open>
  A CoAP request as the handlers read it: \<open>req.url\<close>, \<open>req.method\<close>,
  \<open>req.rsinfo\<close>, and the query parameters \<open>ep\<close>, \<open>lt\<close>, \<open>lwm2m\<close> and \<open>b\<close> as
  \<open>new URL(...).searchParams.get\<close> returns them (\<open>None\<close> for \<open>null\<close>). The URL
  class is the platform's; its parsing is not modelled, its results are part of the
  request.
\<close>

record request =
  req_url :: string
  req_method :: string
  req_ep :: "string option"
  req_lt :: "string option"
  req_lwm2m :: "string option"
  req_b :: "string option"
  req_address :: "string option"
  req_port :: "nat option"

text \<open>
  The response object: its code, the options set on it, whether \<open>end\<close> was called,
  and the body passed to \<open>end\<close>. The only body the server sends is
  \<open>JSON.stringify({objectId, resourceId, value: "sample"})\<close>; it is kept as the two
  path parts \<open>parseInt\<close> is applied to.
\<close>

record response =
  res_code :: string
  res_options :: "(string \<times> string) list"
  res_ended :: bool
  res_body :: "(string \<times> string) option"

text \<open>The clock readings of one handler run, one per place that reads the clock.\<close>

record clock_reads =
  t_gateway_id :: timestamp
  t_insert :: timestamp
  t_status :: timestamp
  t_last_seen :: timestamp

definition respond :: "string \<Rightarrow> response \<Rightarrow> response" where
  "respond c res = res\<lparr>res_code := c, res_ended := True\<rparr>"

definition setOption :: "string \<Rightarrow> string \<Rightarrow> response \<Rightarrow> response" where
  "setOption k v res = res\<lparr>res_options := res_options res @ [(k, v)]\<rparr>"

text \<open>\<open>a || b\<close> on strings: \<open>b\<close> when \<open>a\<close> is \<open>null\<close>, \<open>undefined\<close> or empty.\<close>

definition or_default :: "string option \<Rightarrow> string \<Rightarrow> string" where
  "or_default a b = (case a of None \<Rightarrow> b | Some x \<Rightarrow> if x = [] then b else x)"

text \<open>\<open>s.split(c)\<close> for a one-character separator, and \<open>path.split("/").filter(p => p)\<close>.\<close>

fun split :: "char \<Rightarrow> string \<Rightarrow> string list" where
  "split c [] = [[]]"
| "split c (x # xs) =
     (if x = c then [] # split c xs
      else (case split c xs of [] \<Rightarrow> [[x]] | p # ps \<Rightarrow> (x # p) # ps))"

definition path_parts :: "string \<Rightarrow> string list" where
  "path_parts path = filter (\<lambda>p. p \<noteq> []) (split CHR ''/'' path)"

definition startsWith :: "string \<Rightarrow> string \<Rightarrow> bool" where
  "startsWith s pre = (take (length pre) s = pre)"

definition isClientRegistered :: "server \<Rightarrow> string \<Rightarrow> bool" where
  "isClientRegistered st ep = (map_of (registeredClients st) ep \<noteq> None)"

definition getRegisteredClients :: "server \<Rightarrow> string list" where
  "getRegisteredClients st = map fst (registeredClients st)"

text \<open>
  \<open>handleRegistration\<close>. \<open>!endpoint\<close> holds for \<open>null\<close> and for the empty string.
  The lifetime parameter \<open>lt\<close> is read and never used. The \<open>try\<close> block has
  nothing to catch here: the functions of db.ts catch their own exceptions.
\<close>

definition handleRegistration ::
  "server \<Rightarrow> request \<Rightarrow> response \<Rightarrow> clock_reads \<Rightarrow> server \<times> response" where
  "handleRegistration st req res clk =
     (let lifetime = or_default (req_lt req) ''86400'';
          version = or_default (req_lwm2m req) ''1.0.0'';
          binding = or_default (req_b req) ''U''
      in case req_ep req of
           None \<Rightarrow> (st, respond ''4.00'' res)
         | Some endpoint \<Rightarrow>
             if endpoint = [] then (st, respond ''4.00'' res)
             else
               let remoteAddress = or_default (req_address req) ''unknown'';
                   (gateway, dbo1) =
                     (case getGatewayByEndpoint (srv_db st) endpoint of
                        Some g \<Rightarrow> (Some g, srv_db st)
                      | None \<Rightarrow>
                          createGateway (srv_db st)
                            \<lparr>gi_id = ''gw-'' @ endpoint @ ''-'' @ string_of_nat (t_gateway_id clk),
                             gi_name = endpoint, gi_endpoint = endpoint,
                             gi_ipAddress = Some remoteAddress, gi_ownerId = ''system'',
                             gi_serialNumber = Some endpoint\<rparr>
                            (t_insert clk))
               in (case gateway of
                    Some g \<Rightarrow>
                      (st\<lparr>srv_db :=
                            updateGatewayStatus dbo1 (gw_id g) Online (Some remoteAddress)
                              (t_status clk),
                          registeredClients :=
                            AList.update endpoint
                              \<lparr>cl_endpoint = endpoint, cl_lastSeen = t_last_seen clk\<rparr>
                              (registeredClients st),
                          emitted :=
                            emitted st @ [ClientRegistered endpoint (gw_id g) version binding]\<rparr>,
                       respond ''2.01'' (setOption ''Location-Path'' (''/rd/'' @ gw_id g) res))
                  | None \<Rightarrow> (st\<lparr>srv_db := dbo1\<rparr>, respond ''5.00'' res)))"

text \<open>
  \<open>handleUpdate\<close> (the keep-alive): the path must have two parts, the first \<open>rd\<close>
  (\<open>||\<close> does not read \<open>pathParts[0]\<close> when there are fewer than two parts).
\<close>

definition handleUpdate ::
  "server \<Rightarrow> request \<Rightarrow> response \<Rightarrow> clock_reads \<Rightarrow> server \<times> response" where
  "handleUpdate st req res clk =
     (let path = (if req_url req = [] then ''/'' else req_url req);
          pathParts = path_parts path
      in if length pathParts < 2 then (st, respond ''4.04'' res)
         else if pathParts ! 0 \<noteq> ''rd'' then (st, respond ''4.04'' res)
         else
           case req_ep req of
             None \<Rightarrow> (st, respond ''4.00'' res)
           | Some endpoint \<Rightarrow>
               if endpoint = [] then (st, respond ''4.00'' res)
               else
                 (case getGatewayByEndpoint (srv_db st) endpoint of
                    Some g \<Rightarrow>
                      (st\<lparr>srv_db :=
                            updateGatewayStatus (srv_db st) (gw_id g) Online None (t_status clk),
                          registeredClients :=
                            AList.update endpoint
                              \<lparr>cl_endpoint = endpoint, cl_lastSeen = t_last_seen clk\<rparr>
                              (registeredClients st),
                          emitted := emitted st @ [ClientUpdated endpoint]\<rparr>,
                       respond ''2.04'' res)
                  | None \<Rightarrow> (st, respond ''4.04'' res)))"

definition handleDeregistration ::
  "server \<Rightarrow> request \<Rightarrow> response \<Rightarrow> clock_reads \<Rightarrow> server \<times> response" where
  "handleDeregistration st req res clk =
     (case req_ep req of
        None \<Rightarrow> (st, respond ''4.00'' res)
      | Some endpoint \<Rightarrow>
          if endpoint = [] then (st, respond ''4.00'' res)
          else
            (case getGatewayByEndpoint (srv_db st) endpoint of
               Some g \<Rightarrow>
                 (st\<lparr>srv_db :=
                       updateGatewayStatus (srv_db st) (gw_id g) Offline None (t_status clk),
                     registeredClients := AList.delete endpoint (registeredClients st),
                     emitted := emitted st @ [ClientDeregistered endpoint]\<rparr>,
                  respond ''2.02'' res)
             | None \<Rightarrow> (st, respond ''4.04'' res)))"

text \<open>\<open>handleResourceRequest\<close> answers from the request alone; it touches no state.\<close>

definition handleResourceRequest :: "server \<Rightarrow> request \<Rightarrow> response \<Rightarrow> server \<times> response" where
  "handleResourceRequest st req res =
     (let method = (if req_method req = [] then ''GET'' else req_method req);
          path = (if req_url req = [] then ''/'' else req_url req);
          pathParts = path_parts path
      in if length pathParts < 2 then (st, respond ''4.04'' res)
         else if method = ''GET'' then
           (st, (respond ''2.05'' (setOption ''Content-Format'' ''text/plain'' res))
                  \<lparr>res_body := Some (pathParts ! 0, pathParts ! 1)\<rparr>)
         else if method = ''PUT'' then (st, respond ''2.04'' res)
         else (st, respond ''4.05'' res))"

text \<open>\<open>handleCoapRequest\<close>, the entry point of every datagram.\<close>

definition handleCoapRequest ::
  "server \<Rightarrow> request \<Rightarrow> response \<Rightarrow> clock_reads \<Rightarrow> server \<times> response" where
  "handleCoapRequest st req res clk =
     (let path = (if req_url req = [] then ''/'' else req_url req);
          method = (if req_method req = [] then ''GET'' else req_method req)
      in if startsWith path ''/rd'' then
           (if method = ''POST'' then handleRegistration st req res clk
            else if method = ''PUT'' then handleUpdate st req res clk
            else if method = ''DELETE'' then handleDeregistration st req res clk
            else (st, respond ''4.04'' res))
         else handleResourceRequest st req res)"

text \<open>
  The CoAP server calls \<open>handleCoapRequest\<close> once per datagram. \<open>serve\<close> runs a
  sequence of datagrams, each with its response object and clock readings, one after
  the other.
\<close>

fun serve :: "server \<Rightarrow> (request \<times> response \<times> clock_reads) list \<Rightarrow> server" where
  "serve st [] = st"
| "serve st ((req, res, clk) # rest) = serve (fst (handleCoapRequest st req res clk)) rest"


text \<open>
  The one request that takes an endpoint out of \<open>registeredClients\<close>: a DELETE on the
  registration interface whose \<open>ep\<close> parameter names it.
\<close>

definition deregisters :: "request \<Rightarrow> string \<Rightarrow> bool" where
  "deregisters req ep =
     (startsWith (if req_url req = [] then ''/'' else req_url req) ''/rd''
      \<and> req_method req = ''DELETE'' \<and> req_ep req = Some ep)"

section \<open>Concrete inputs\<close>

text \<open>
  A server with an empty database, a fresh response object, and the three
  registration-interface requests of a device, with the query parameters the URL class
  reads from each \<open>url\<close>.
\<close>

definition server0 :: server where
  "server0 = \<lparr>srv_db = Some empty_database, registeredClients = [], emitted = []\<rparr>"

definition response0 :: response where
  "response0 = \<lparr>res_code = ''2.05'', res_options = [], res_ended = False, res_body = None\<rparr>"

definition clock_at :: "timestamp \<Rightarrow> clock_reads" where
  "clock_at t = \<lparr>t_gateway_id = t, t_insert = t, t_status = t, t_last_seen = t\<rparr>"

definition register_request :: "string \<Rightarrow> string \<Rightarrow> request" where
  "register_request ep lt =
     \<lparr>req_url = ''/rd?ep='' @ ep @ ''&lt='' @ lt, req_method = ''POST'', req_ep = Some ep,
      req_lt = Some lt, req_lwm2m = None, req_b = None,
      req_address = Some ''10.0.0.7'', req_port = Some 56830\<rparr>"

definition update_request :: "string \<Rightarrow> request" where
  "update_request ep =
     \<lparr>req_url = ''/rd/1?ep='' @ ep, req_method = ''PUT'', req_ep = Some ep,
      req_lt = None, req_lwm2m = None, req_b = None,
      req_address = Some ''10.0.0.7'', req_port = Some 56830\<rparr>"

definition deregister_request :: "string \<Rightarrow> request" where
  "deregister_request ep =
     \<lparr>req_url = ''/rd/1?ep='' @ ep, req_method = ''DELETE'', req_ep = Some ep,
      req_lt = None, req_lwm2m = None, req_b = None,
      req_address = Some ''10.0.0.7'', req_port = Some 56830\<rparr>"

definition read_request :: request where
  "read_request =
     \<lparr>req_url = ''/3/0'', req_method = ''GET'', req_ep = None,
      req_lt = None, req_lwm2m = None, req_b = None,
      req_address = Some ''10.0.0.9'', req_port = Some 56831\<rparr>"


definition one_alert_database :: database where
  "one_alert_database =
     empty_database\<lparr>alerts :=
       [\<lparr>al_id = ''al-1'', al_gatewayId = ''gw-1'', al_alertType = AlertOffline,
         al_severity = Warning, al_message = ''gateway offline'', al_isResolved = False,
         al_createdAt = 1000, al_resolvedAt = None\<rparr>]\<rparr>"

section \<open>Properties\<close>

subsection \<open>Helper facts about the query operators\<close>

lemma first_row_limit: "0 < n \<Longrightarrow> first_row (limit n rows) = first_row rows"
  by (cases rows; cases n) (simp_all add: limit_def)

lemma first_row_None_iff: "first_row rows = None \<longleftrightarrow> rows = []"
  by (cases rows) simp_all

lemma first_row_Some_hd: "first_row rows = Some r \<Longrightarrow> rows \<noteq> [] \<and> r = hd rows"
  by (cases rows) simp_all

lemma orderBy_Nil_iff: "orderBy col rows = [] \<longleftrightarrow> rows = []"
  by (cases rows) (simp_all add: orderBy_def)

lemma hd_orderBy_least:
  assumes "rows \<noteq> []" and "r \<in> set rows"
  shows "col (hd (orderBy col rows)) \<le> col r"
proof -
  have srt: "sorted (map col (orderBy col rows))"
    by (simp add: orderBy_def)
  have ne: "orderBy col rows \<noteq> []"
    using assms(1) by (simp add: orderBy_Nil_iff)
  have mem: "r \<in> set (orderBy col rows)"
    using assms(2) by (simp add: orderBy_def)
  obtain x xs where eq: "orderBy col rows = x # xs"
    using ne by (cases "orderBy col rows") auto
  from srt mem show ?thesis
    unfolding eq by auto
qed

subsection \<open>Latest resource value\<close>

text \<open>
  What the query computes: the row it returns belongs to the resource and carries the
  smallest timestamp recorded for it, and \<open>null\<close> is returned exactly when the resource
  has no row (or there is no database).
\<close>

lemma getLatestResourceValue_least:
  assumes "getLatestResourceValue (Some d) rid = Some r"
    and "r' \<in> set (lwm2mResourceValues d)" and "rv_resourceId r' = rid"
  shows "rv_timestamp r \<le> rv_timestamp r'"
proof -
  let ?rows = "filter (\<lambda>x. rv_resourceId x = rid) (lwm2mResourceValues d)"
  have mem: "r' \<in> set ?rows"
    using assms(2,3) by simp
  then have ne: "?rows \<noteq> []"
    by (auto simp: filter_empty_conv)
  have "first_row (orderBy rv_timestamp ?rows) = Some r"
    using assms(1) by (simp add: getLatestResourceValue_def first_row_limit)
  then have "r = hd (orderBy rv_timestamp ?rows)"
    by (simp add: first_row_Some_hd)
  then show ?thesis
    using hd_orderBy_least [OF ne mem, of rv_timestamp] by simp
qed

lemma getLatestResourceValue_None_iff:
  "getLatestResourceValue (Some d) rid = None
     \<longleftrightarrow> filter (\<lambda>x. rv_resourceId x = rid) (lwm2mResourceValues d) = []"
  by (simp add: getLatestResourceValue_def first_row_limit first_row_None_iff orderBy_Nil_iff)

text \<open>
  Claim C1 (latest-value query). The claim: for a resource with recorded rows, the
  latest-value query returns the row with the greatest timestamp, and \<open>null\<close> when
  there is none. Evaluated on the code: through the router, the value \<open>old\<close> is set
  for resource \<open>res-1\<close> at time 1000 and the value \<open>new\<close> at time 2000. The
  latest-value query then answers with the row stamped 1000, the oldest one, because
  the query sorts ascending and keeps the first row.
\<close>

theorem C1_getLatestResourceValue_returns_oldest:
  "(let (r1, db1) = resources_setValue (Some empty_database) ''res-1'' ''gw-1'' ''old'' 1000 1000;
        (r2, db2) = resources_setValue db1 ''res-1'' ''gw-1'' ''new'' 2000 2000
    in map_sum id rv_timestamp r1 = Inr 1000
       \<and> map_sum id rv_timestamp r2 = Inr 2000
       \<and> map_option rv_value (resources_getValue db2 ''res-1'' ''gw-1'') = Some ''old''
       \<and> map_option rv_timestamp (getLatestResourceValue db2 ''res-1'') = Some 1000
       \<and> getLatestResourceValue (Some empty_database) ''res-1'' = None)"
  by (simp add: resources_setValue_def resources_getValue_def recordResourceValue_def
      getLatestResourceValue_def empty_database_def orderBy_def limit_def Let_def digit_char_def
      string_of_nat.simps varchar_def)

subsection \<open>Gateways and registration\<close>

lemma first_row_map: "first_row (map f rows) = map_option f (first_row rows)"
  by (cases rows) simp_all

lemma filter_map_invariant:
  assumes "\<And>x. P (f x) = P x"
  shows "filter P (map f rows) = map f (filter P rows)"
  using assms by (induction rows) simp_all

lemma gw_endpoint_set_gateway_status [simp]:
  "gw_endpoint (set_gateway_status s ip t g) = gw_endpoint g"
  by (simp add: set_gateway_status_def)

lemma gw_id_set_gateway_status [simp]:
  "gw_id (set_gateway_status s ip t g) = gw_id g"
  by (simp add: set_gateway_status_def)

lemma gw_status_set_gateway_status [simp]:
  "gw_status (set_gateway_status s ip t g) = s"
  by (simp add: set_gateway_status_def)

lemma getGatewayByEndpoint_updateGatewayStatus:
  "getGatewayByEndpoint (updateGatewayStatus dbo gid s ip t) ep =
     map_option (\<lambda>g. if gw_id g = gid then set_gateway_status s ip t g else g)
       (getGatewayByEndpoint dbo ep)"
proof (cases dbo)
  case None
  then show ?thesis
    by (simp add: getGatewayByEndpoint_def updateGatewayStatus_def)
next
  case (Some d)
  let ?f = "\<lambda>g. if gw_id g = gid then set_gateway_status s ip t g else g"
  have "filter (\<lambda>r. gw_endpoint r = ep) (map ?f (gateways d)) =
        map ?f (filter (\<lambda>r. gw_endpoint r = ep) (gateways d))"
    by (rule filter_map_invariant) simp
  then show ?thesis
    using Some
    by (simp add: getGatewayByEndpoint_def updateGatewayStatus_def first_row_limit first_row_map)
qed

lemma getGatewayByEndpoint_Some_endpoint:
  "getGatewayByEndpoint dbo ep = Some g \<Longrightarrow> gw_endpoint g = ep"
proof -
  assume a: "getGatewayByEndpoint dbo ep = Some g"
  then obtain d where d: "dbo = Some d"
    by (cases dbo) (simp_all add: getGatewayByEndpoint_def)
  from a d have "first_row (filter (\<lambda>r. gw_endpoint r = ep) (gateways d)) = Some g"
    by (simp add: getGatewayByEndpoint_def first_row_limit)
  then have "g \<in> set (filter (\<lambda>r. gw_endpoint r = ep) (gateways d))"
    by (cases "filter (\<lambda>r. gw_endpoint r = ep) (gateways d)") auto
  then show ?thesis by simp
qed

text \<open>createGateway, when it answers with a row, has appended exactly that row.\<close>

lemma createGateway_Some:
  assumes "createGateway dbo gi now = (Some g, dbo')"
  shows "\<exists>d. dbo = Some d \<and> dbo' = Some (d\<lparr>gateways := gateways d @ [g]\<rparr>)
           \<and> gw_id g = gi_id gi \<and> gw_endpoint g = gi_endpoint gi \<and> gw_status g = Offline
           \<and> \<not> list_ex (\<lambda>r. gw_id r = gi_id gi \<or> gw_endpoint r = gi_endpoint gi) (gateways d)"
proof -
  obtain d where d: "dbo = Some d"
    using assms by (cases dbo) (simp_all add: createGateway_def)
  have fresh: "\<not> list_ex (\<lambda>r. gw_id r = gi_id gi \<or> gw_endpoint r = gi_endpoint gi) (gateways d)"
    using assms d by (auto simp: createGateway_def split: if_splits)
  then have noid: "filter (\<lambda>r. gw_id r = gi_id gi) (gateways d) = []"
    by (auto simp: list_ex_iff filter_empty_conv)
  show ?thesis
    using assms d fresh noid
    by (auto simp: createGateway_def Let_def first_row_limit split: if_splits)
qed

lemma handleRegistration_success:
  assumes run: "handleRegistration st req res clk = (st', res')"
    and ok: "res_code res' = ''2.01''"
  shows "\<exists>ep g. req_ep req = Some ep \<and> ep \<noteq> [] \<and> isClientRegistered st' ep
           \<and> getGatewayByEndpoint (srv_db st') ep = Some g \<and> gw_status g = Online"
proof -
  obtain ep where ep: "req_ep req = Some ep" "ep \<noteq> []"
    using run ok
    by (cases "req_ep req") (auto simp: handleRegistration_def respond_def split: if_splits)
  show ?thesis
  proof (cases "getGatewayByEndpoint (srv_db st) ep")
    case (Some g)
    have epg: "gw_endpoint g = ep"
      using Some by (rule getGatewayByEndpoint_Some_endpoint)
    from run ep Some have st': "st' = st\<lparr>srv_db :=
        updateGatewayStatus (srv_db st) (gw_id g) Online
          (Some (or_default (req_address req) ''unknown'')) (t_status clk),
        registeredClients := AList.update ep \<lparr>cl_endpoint = ep, cl_lastSeen = t_last_seen clk\<rparr>
          (registeredClients st),
        emitted := emitted st @ [ClientRegistered ep (gw_id g)
          (or_default (req_lwm2m req) ''1.0.0'') (or_default (req_b req) ''U'')]\<rparr>"
      by (simp add: handleRegistration_def Let_def)
    show ?thesis
      using ep Some
      by (simp add: st' isClientRegistered_def update_conv getGatewayByEndpoint_updateGatewayStatus)
  next
    case None
    let ?gi = "\<lparr>gi_id = ''gw-'' @ ep @ ''-'' @ string_of_nat (t_gateway_id clk),
                 gi_name = ep, gi_endpoint = ep,
                 gi_ipAddress = Some (or_default (req_address req) ''unknown''),
                 gi_ownerId = ''system'', gi_serialNumber = Some ep\<rparr>"
    obtain gw dbo1 where cg: "createGateway (srv_db st) ?gi (t_insert clk) = (gw, dbo1)"
      by (cases "createGateway (srv_db st) ?gi (t_insert clk)") 
    from run ok ep None cg obtain g where g: "gw = Some g"
      by (cases gw) (auto simp: handleRegistration_def Let_def respond_def)
    from createGateway_Some [OF cg [unfolded g]] obtain d where
      d: "srv_db st = Some d" "dbo1 = Some (d\<lparr>gateways := gateways d @ [g]\<rparr>)"
         "gw_id g = gi_id ?gi" "gw_endpoint g = ep"
      by auto
    from None d have noep: "filter (\<lambda>r. gw_endpoint r = ep) (gateways d) = []"
      by (simp add: getGatewayByEndpoint_def first_row_limit first_row_None_iff)
    have found: "getGatewayByEndpoint dbo1 ep = Some g"
      using d noep by (simp add: getGatewayByEndpoint_def first_row_limit)
    from run ep None cg g have st': "st' = st\<lparr>srv_db :=
        updateGatewayStatus dbo1 (gw_id g) Online
          (Some (or_default (req_address req) ''unknown'')) (t_status clk),
        registeredClients := AList.update ep \<lparr>cl_endpoint = ep, cl_lastSeen = t_last_seen clk\<rparr>
          (registeredClients st),
        emitted := emitted st @ [ClientRegistered ep (gw_id g)
          (or_default (req_lwm2m req) ''1.0.0'') (or_default (req_b req) ''U'')]\<rparr>"
      by (simp add: handleRegistration_def Let_def)
    show ?thesis
      using ep found
      by (simp add: st' isClientRegistered_def update_conv getGatewayByEndpoint_updateGatewayStatus)
  qed
qed

text \<open>
  Claim C5 (register, then get). After a registration that the handler answers with
  2.01 Created, the endpoint is in the registered-clients map (\<open>isClientRegistered\<close>)
  and the gateway record read back by endpoint has status \<open>online\<close>.
\<close>

theorem C5_register_then_get_registered:
  assumes "handleRegistration st req res clk = (st', res')"
    and "res_code res' = ''2.01''"
    and "req_ep req = Some E"
  shows "isClientRegistered st' E
         \<and> (\<exists>g. getGatewayByEndpoint (srv_db st') E = Some g \<and> gw_status g = Online)"
  using handleRegistration_success [OF assms(1,2)] assms(3) by auto

theorem C5_register_then_get_registered_witness:
  "(let r = handleRegistration server0 (register_request ''rv50x-01'' ''60'') response0
              (clock_at 1000)
    in res_code (snd r) = ''2.01''
       \<and> req_ep (register_request ''rv50x-01'' ''60'') = Some ''rv50x-01''
       \<and> isClientRegistered (fst r) ''rv50x-01''
       \<and> (\<exists>g. getGatewayByEndpoint (srv_db (fst r)) ''rv50x-01'' = Some g
                \<and> gw_status g = Online))"
proof -
  let ?r = "handleRegistration server0 (register_request ''rv50x-01'' ''60'') response0
              (clock_at 1000)"
  have run: "?r = (fst ?r, snd ?r)"
    by simp
  have ok: "res_code (snd ?r) = ''2.01''"
    by (simp add: handleRegistration_def register_request_def server0_def response0_def
        clock_at_def empty_database_def getGatewayByEndpoint_def createGateway_def
        limit_def Let_def respond_def setOption_def or_default_def string_of_nat.simps
        varchar_def varchar_opt_def)
  have ep: "req_ep (register_request ''rv50x-01'' ''60'') = Some ''rv50x-01''"
    by (simp add: register_request_def)
  show ?thesis
    using C5_register_then_get_registered [OF run ok ep] ok ep by (simp add: Let_def)
qed

text \<open>
  Claim C10 (registration without \<open>ep\<close>). When the query has no \<open>ep\<close> parameter,
  the registration handler sets the code 4.00, ends the response and returns the server
  state as it was: database, registered-clients map and emitted events are unchanged.
\<close>

theorem C10_registration_without_ep:
  assumes "req_ep req = None"
  shows "handleRegistration st req res clk = (st, res\<lparr>res_code := ''4.00'', res_ended := True\<rparr>)"
  using assms by (simp add: handleRegistration_def respond_def)

theorem C10_registration_without_ep_witness:
  "req_ep ((register_request ''rv50x-01'' ''60'')\<lparr>req_url := ''/rd?lt=60'', req_ep := None\<rparr>) = None
   \<and> handleRegistration server0
        ((register_request ''rv50x-01'' ''60'')\<lparr>req_url := ''/rd?lt=60'', req_ep := None\<rparr>)
        response0 (clock_at 1000)
      = (server0, response0\<lparr>res_code := ''4.00'', res_ended := True\<rparr>)"
  using C10_registration_without_ep
    [of "(register_request ''rv50x-01'' ''60'')\<lparr>req_url := ''/rd?lt=60'', req_ep := None\<rparr>"
        server0 response0 "clock_at 1000"]
  by simp

subsection \<open>Evaluation of the concrete inputs\<close>

lemmas base_eval_defs =
  empty_database_def limit_def Let_def truthy_def digit_char_def string_of_nat.simps
  varchar_def varchar_opt_def

lemmas eval_defs =
  handleCoapRequest_def handleRegistration_def handleUpdate_def handleDeregistration_def
  handleResourceRequest_def register_request_def update_request_def deregister_request_def
  read_request_def server0_def response0_def clock_at_def
  getGatewayByEndpoint_def createGateway_def updateGatewayStatus_def set_gateway_status_def
  respond_def setOption_def or_default_def startsWith_def
  path_parts_def isClientRegistered_def getRegisteredClients_def

lemmas db_eval_defs =
  commands_create_def commands_get_def commands_listPending_def commands_updateStatus_def
  createCommand_def getCommand_def updateCommandStatus_def set_command_status_def
  listPendingCommands_def createAlert_def listAlerts_def resolveAlert_def alerts_resolve_def

subsection \<open>The Update handler\<close>

lemma path_parts_Nil [simp]: "path_parts [] = []"
  by (simp add: path_parts_def)

lemma handleUpdate_known:
  assumes ep: "req_ep req = Some ep" "ep \<noteq> []"
    and gw: "getGatewayByEndpoint (srv_db st) ep = Some g"
    and parts: "2 \<le> length (path_parts (req_url req))" "path_parts (req_url req) ! 0 = ''rd''"
  shows "handleUpdate st req res clk =
     (st\<lparr>srv_db := updateGatewayStatus (srv_db st) (gw_id g) Online None (t_status clk),
         registeredClients :=
           AList.update ep \<lparr>cl_endpoint = ep, cl_lastSeen = t_last_seen clk\<rparr>
             (registeredClients st),
         emitted := emitted st @ [ClientUpdated ep]\<rparr>,
      respond ''2.04'' res)"
proof -
  have url: "req_url req \<noteq> []"
    using parts(1) by auto
  show ?thesis
    using ep gw parts url by (simp add: handleUpdate_def Let_def)
qed

text \<open>
  Claim C4 (refresh of an unknown or deregistered endpoint), as amended. The Update
  handler looks the endpoint up in the \<open>gateways\<close> table only. For an endpoint with no
  gateway record it answers 4.04 and returns the server state unchanged. For an endpoint
  that has a gateway record (a deregistered endpoint keeps its record, with status
  \<open>offline\<close>) and a request path of at least two parts starting with \<open>rd\<close>, it
  answers 2.04, the endpoint is in the registered-clients map afterwards and its gateway
  record has status \<open>online\<close>.
\<close>

theorem C4_update_needs_gateway_record:
  assumes "req_ep req = Some ep" and "ep \<noteq> []"
  shows "(getGatewayByEndpoint (srv_db st) ep = None \<longrightarrow>
            handleUpdate st req res clk = (st, res\<lparr>res_code := ''4.04'', res_ended := True\<rparr>))
       \<and> (getGatewayByEndpoint (srv_db st) ep \<noteq> None
            \<and> 2 \<le> length (path_parts (req_url req)) \<and> path_parts (req_url req) ! 0 = ''rd'' \<longrightarrow>
            res_code (snd (handleUpdate st req res clk)) = ''2.04''
            \<and> isClientRegistered (fst (handleUpdate st req res clk)) ep
            \<and> map_option gw_status
                 (getGatewayByEndpoint (srv_db (fst (handleUpdate st req res clk))) ep)
               = Some Online)"
proof (rule conjI; rule impI)
  assume "getGatewayByEndpoint (srv_db st) ep = None"
  then show "handleUpdate st req res clk = (st, res\<lparr>res_code := ''4.04'', res_ended := True\<rparr>)"
    using assms by (simp add: handleUpdate_def Let_def respond_def)
next
  assume h: "getGatewayByEndpoint (srv_db st) ep \<noteq> None
             \<and> 2 \<le> length (path_parts (req_url req)) \<and> path_parts (req_url req) ! 0 = ''rd''"
  then obtain g where g: "getGatewayByEndpoint (srv_db st) ep = Some g"
    by auto
  note run = handleUpdate_known [OF assms g, of res clk]
  show "res_code (snd (handleUpdate st req res clk)) = ''2.04''
        \<and> isClientRegistered (fst (handleUpdate st req res clk)) ep
        \<and> map_option gw_status
             (getGatewayByEndpoint (srv_db (fst (handleUpdate st req res clk))) ep)
           = Some Online"
    using h g
    by (simp add: run respond_def isClientRegistered_def update_conv
        getGatewayByEndpoint_updateGatewayStatus)
qed

text \<open>
  The witness of C4: both cases at concrete inputs, an endpoint never seen by an empty
  database, and the same endpoint after it registered and deregistered.
\<close>

theorem C4_update_needs_gateway_record_witness:
  "req_ep (update_request ''rv50x-01'') = Some ''rv50x-01'' \<and> ''rv50x-01'' \<noteq> []
   \<and> getGatewayByEndpoint (srv_db server0) ''rv50x-01'' = None
   \<and> handleUpdate server0 (update_request ''rv50x-01'') response0 (clock_at 3000)
       = (server0, response0\<lparr>res_code := ''4.04'', res_ended := True\<rparr>)
   \<and> (let s2 = serve server0
                  [(register_request ''rv50x-01'' ''60'', response0, clock_at 1000),
                   (deregister_request ''rv50x-01'', response0, clock_at 2000)];
            r = handleUpdate s2 (update_request ''rv50x-01'') response0 (clock_at 3000)
        in getGatewayByEndpoint (srv_db s2) ''rv50x-01'' \<noteq> None
           \<and> 2 \<le> length (path_parts (req_url (update_request ''rv50x-01'')))
           \<and> path_parts (req_url (update_request ''rv50x-01'')) ! 0 = ''rd''
           \<and> res_code (snd r) = ''2.04''
           \<and> isClientRegistered (fst r) ''rv50x-01''
           \<and> map_option gw_status (getGatewayByEndpoint (srv_db (fst r)) ''rv50x-01'')
               = Some Online)"
proof -
  let ?req = "update_request ''rv50x-01''"
  let ?s2 = "serve server0
               [(register_request ''rv50x-01'' ''60'', response0, clock_at 1000),
                (deregister_request ''rv50x-01'', response0, clock_at 2000)]"
  have ep: "req_ep ?req = Some ''rv50x-01''"
    by (simp add: update_request_def)
  have ne: "''rv50x-01'' \<noteq> []"
    by simp
  have none: "getGatewayByEndpoint (srv_db server0) ''rv50x-01'' = None"
    by (simp add: base_eval_defs eval_defs)
  have known: "getGatewayByEndpoint (srv_db ?s2) ''rv50x-01'' \<noteq> None
               \<and> 2 \<le> length (path_parts (req_url ?req))
               \<and> path_parts (req_url ?req) ! 0 = ''rd''"
    by (simp add: base_eval_defs eval_defs)
  note thm1 = C4_update_needs_gateway_record [OF ep ne, of server0 response0 "clock_at 3000"]
  note thm2 = C4_update_needs_gateway_record [OF ep ne, of ?s2 response0 "clock_at 3000"]
  from thm1 none have p1: "handleUpdate server0 ?req response0 (clock_at 3000)
       = (server0, response0\<lparr>res_code := ''4.04'', res_ended := True\<rparr>)"
    by blast
  from thm2 known have p2: "res_code (snd (handleUpdate ?s2 ?req response0 (clock_at 3000))) = ''2.04''
       \<and> isClientRegistered (fst (handleUpdate ?s2 ?req response0 (clock_at 3000))) ''rv50x-01''
       \<and> map_option gw_status (getGatewayByEndpoint
              (srv_db (fst (handleUpdate ?s2 ?req response0 (clock_at 3000)))) ''rv50x-01'')
           = Some Online"
    by blast
  show ?thesis
    using ep none p1 known p2 by (simp add: Let_def)
qed

text \<open>
  The counterexample to C4 as stated: endpoint \<open>rv50x-01\<close> registers, deregisters (it
  is then out of the map and \<open>offline\<close>) and sends an Update. The handler answers
  2.04, not 4.04, and the Update has side effects: the endpoint is back in the map, its
  record is \<open>online\<close> with a new \<open>lastSeen\<close>, and a \<open>client-updated\<close> event is
  emitted.
\<close>

theorem C4_update_after_deregistration:
  "(let (s1, r1) = handleCoapRequest server0 (register_request ''rv50x-01'' ''60'') response0
                     (clock_at 1000);
        (s2, r2) = handleCoapRequest s1 (deregister_request ''rv50x-01'') response0 (clock_at 2000);
        (s3, r3) = handleCoapRequest s2 (update_request ''rv50x-01'') response0 (clock_at 3000)
    in res_code r1 = ''2.01'' \<and> res_code r2 = ''2.02''
       \<and> \<not> isClientRegistered s2 ''rv50x-01''
       \<and> map_option gw_status (getGatewayByEndpoint (srv_db s2) ''rv50x-01'') = Some Offline
       \<and> res_code r3 = ''2.04''
       \<and> isClientRegistered s3 ''rv50x-01''
       \<and> map_option gw_status (getGatewayByEndpoint (srv_db s3) ''rv50x-01'') = Some Online
       \<and> map_option gw_lastSeen (getGatewayByEndpoint (srv_db s3) ''rv50x-01'') = Some (Some 3000)
       \<and> emitted s3 = emitted s2 @ [ClientUpdated ''rv50x-01'']
       \<and> s3 \<noteq> s2)"
  by (simp add: base_eval_defs eval_defs)

text \<open>
  A deregistration that the handler answers with 2.02 takes the endpoint out of the
  registered-clients map and leaves its gateway record in place, with status
  \<open>offline\<close>: the Update handler finds that record.
\<close>

lemma handleDeregistration_keeps_record:
  assumes run: "handleDeregistration st req res clk = (st', res')"
    and ok: "res_code res' = ''2.02''"
    and ep: "req_ep req = Some ep"
  shows "\<not> isClientRegistered st' ep
         \<and> (\<exists>g. getGatewayByEndpoint (srv_db st') ep = Some g \<and> gw_status g = Offline)"
proof -
  have ne: "ep \<noteq> []"
    using run ok ep by (auto simp: handleDeregistration_def respond_def)
  obtain g where g: "getGatewayByEndpoint (srv_db st) ep = Some g"
    using run ok ep ne
    by (cases "getGatewayByEndpoint (srv_db st) ep")
       (auto simp: handleDeregistration_def respond_def)
  have epg: "gw_endpoint g = ep"
    using g by (rule getGatewayByEndpoint_Some_endpoint)
  from run ep ne g have st': "st' = st\<lparr>srv_db :=
        updateGatewayStatus (srv_db st) (gw_id g) Offline None (t_status clk),
        registeredClients := AList.delete ep (registeredClients st),
        emitted := emitted st @ [ClientDeregistered ep]\<rparr>"
    by (simp add: handleDeregistration_def)
  show ?thesis
    using g
    by (simp add: st' isClientRegistered_def delete_conv getGatewayByEndpoint_updateGatewayStatus)
qed

subsection \<open>Liveness of registered clients\<close>

lemma isClientRegistered_update:
  "isClientRegistered st ep \<Longrightarrow>
     isClientRegistered (st\<lparr>registeredClients := AList.update k v (registeredClients st)\<rparr>) ep"
  by (simp add: isClientRegistered_def update_conv)

lemma handleRegistration_keeps_clients:
  assumes "isClientRegistered st ep"
  shows "isClientRegistered (fst (handleRegistration st req res clk)) ep"
  using assms
  by (auto simp: handleRegistration_def Let_def isClientRegistered_def update_conv
      split: option.splits prod.splits)

lemma handleUpdate_keeps_clients:
  assumes "isClientRegistered st ep"
  shows "isClientRegistered (fst (handleUpdate st req res clk)) ep"
  using assms
  by (auto simp: handleUpdate_def Let_def isClientRegistered_def update_conv
      split: option.splits)

lemma handleDeregistration_keeps_other_clients:
  assumes "isClientRegistered st ep" and "req_ep req \<noteq> Some ep"
  shows "isClientRegistered (fst (handleDeregistration st req res clk)) ep"
  using assms
  by (auto simp: handleDeregistration_def isClientRegistered_def delete_conv
      split: option.splits)

lemma handleResourceRequest_state: "fst (handleResourceRequest st req res) = st"
  by (simp add: handleResourceRequest_def Let_def)

lemma handleCoapRequest_keeps_clients:
  assumes "isClientRegistered st ep" and "\<not> deregisters req ep"
  shows "isClientRegistered (fst (handleCoapRequest st req res clk)) ep"
proof -
  let ?path = "if req_url req = [] then ''/'' else req_url req"
  let ?meth = "if req_method req = [] then ''GET'' else req_method req"
  show ?thesis
  proof (cases "startsWith ?path ''/rd''")
    case False
    then show ?thesis
      using assms(1) by (simp add: handleCoapRequest_def Let_def handleResourceRequest_state)
  next
    case rd: True
    consider (post) "?meth = ''POST''" | (put) "?meth = ''PUT''"
      | (del) "?meth = ''DELETE''"
      | (other) "?meth \<noteq> ''POST''" "?meth \<noteq> ''PUT''" "?meth \<noteq> ''DELETE''"
      by blast
    then show ?thesis
    proof cases
      case post
      then show ?thesis
        using rd assms(1)
        by (simp add: handleCoapRequest_def Let_def handleRegistration_keeps_clients)
    next
      case put
      then show ?thesis
        using rd assms(1)
        by (simp add: handleCoapRequest_def Let_def handleUpdate_keeps_clients)
    next
      case del
      then have m: "req_method req = ''DELETE''"
        by (simp split: if_splits)
      with rd assms(2) have "req_ep req \<noteq> Some ep"
        by (simp add: deregisters_def)
      then show ?thesis
        using rd del assms(1)
        by (simp add: handleCoapRequest_def Let_def handleDeregistration_keeps_other_clients)
    next
      case other
      then show ?thesis
        using rd assms(1) by (simp add: handleCoapRequest_def Let_def)
    qed
  qed
qed

text \<open>
  Claim C9 (stale sweep), as amended. The server has no operation that reads a client's
  \<open>lastSeen\<close> or lifetime: an endpoint that is in the registered-clients map stays in
  it, and in the list \<open>getRegisteredClients\<close> returns, through every sequence of
  datagrams and clock readings that contains no deregistration (a DELETE on the
  registration interface) naming that endpoint.
\<close>

theorem C9_only_deregistration_unregisters:
  assumes "isClientRegistered st ep"
    and "list_all (\<lambda>(req, res, clk). \<not> deregisters req ep) reqs"
  shows "isClientRegistered (serve st reqs) ep \<and> ep \<in> set (getRegisteredClients (serve st reqs))"
proof -
  have "isClientRegistered (serve st reqs) ep"
    using assms
  proof (induction reqs arbitrary: st)
    case Nil
    then show ?case by simp
  next
    case (Cons x reqs)
    obtain req res clk where x: "x = (req, res, clk)"
      by (cases x) 
    from Cons.prems x have "isClientRegistered (fst (handleCoapRequest st req res clk)) ep"
      by (simp add: handleCoapRequest_keeps_clients)
    with Cons.IH Cons.prems(2) x show ?case
      by simp
  qed
  then show ?thesis
    by (simp add: isClientRegistered_def getRegisteredClients_def map_of_eq_None_iff)
qed

text \<open>
  The witness of C9: a registered endpoint, then a resource read, and the registration
  and deregistration of another endpoint.
\<close>

theorem C9_only_deregistration_unregisters_witness:
  "(let s1 = serve server0 [(register_request ''rv50x-02'' ''5'', response0, clock_at 1000)];
        reqs = [(read_request, response0, clock_at 7000),
                (register_request ''rv50x-03'' ''60'', response0, clock_at 8000),
                (deregister_request ''rv50x-03'', response0, clock_at 9000)]
    in isClientRegistered s1 ''rv50x-02''
       \<and> list_all (\<lambda>(req, res, clk). \<not> deregisters req ''rv50x-02'') reqs
       \<and> isClientRegistered (serve s1 reqs) ''rv50x-02''
       \<and> ''rv50x-02'' \<in> set (getRegisteredClients (serve s1 reqs)))"
proof -
  let ?s1 = "serve server0 [(register_request ''rv50x-02'' ''5'', response0, clock_at 1000)]"
  let ?reqs = "[(read_request, response0, clock_at 7000),
                (register_request ''rv50x-03'' ''60'', response0, clock_at 8000),
                (deregister_request ''rv50x-03'', response0, clock_at 9000)]"
  have reg: "isClientRegistered ?s1 ''rv50x-02''"
    by (simp add: base_eval_defs eval_defs)
  have nodel: "list_all (\<lambda>(req, res, clk). \<not> deregisters req ''rv50x-02'') ?reqs"
    by (simp add: deregisters_def read_request_def register_request_def deregister_request_def)
  from C9_only_deregistration_unregisters [OF reg nodel] reg nodel show ?thesis
    by (simp add: Let_def)
qed

text \<open>
  The counterexample to C9 as stated: \<open>rv50x-02\<close> registers at time 1000 with a
  lifetime of 5 seconds; at time 7000, more than 5000 milliseconds after it was last
  seen, the server handles another datagram. The endpoint is still registered, with its
  \<open>lastSeen\<close> of 1000, and its gateway record is still \<open>online\<close>.
\<close>

theorem C9_expired_client_stays_registered:
  "(let s1 = serve server0 [(register_request ''rv50x-02'' ''5'', response0, clock_at 1000)];
        s2 = serve s1 [(read_request, response0, clock_at 7000)]
    in map_of (registeredClients s2) ''rv50x-02''
         = Some \<lparr>cl_endpoint = ''rv50x-02'', cl_lastSeen = 1000\<rparr>
       \<and> 5 * 1000 < (7000::nat) - 1000
       \<and> isClientRegistered s2 ''rv50x-02''
       \<and> getRegisteredClients s2 = [''rv50x-02'']
       \<and> map_option gw_status (getGatewayByEndpoint (srv_db s2) ''rv50x-02'') = Some Online)"
  by (simp add: base_eval_defs eval_defs)

subsection \<open>Command submission\<close>


text \<open>
  A command whose id, gateway id or resource id does not fit its \<open>varchar(64)\<close> column
  is not stored, and \<open>commands.create\<close> then throws \<open>INTERNAL_SERVER_ERROR\<close>.
\<close>

lemma createCommand_too_wide:
  assumes "64 < length (ci_id c) \<or> 64 < length (ci_gatewayId c) \<or> 64 < length (ci_resourceId c)"
  shows "createCommand (Some d) c now = (None, Some d)"
  using assms by (auto simp: createCommand_def varchar_def)

lemma commands_create_too_wide:
  assumes "64 < length (''cmd-'' @ gatewayId @ ''-'' @ resourceId @ ''-'' @ string_of_nat now)"
  shows "commands_create (Some d) gatewayId resourceId commandType val now dbnow
           = (Inl INTERNAL_SERVER_ERROR, Some d)"
  using assms by (simp add: commands_create_def Let_def createCommand_too_wide)




subsection \<open>Command status\<close>

lemma cmd_id_set_command_status [simp]:
  "cmd_id (set_command_status s err now c) = cmd_id c"
  by (simp add: set_command_status_def)

lemma cmd_status_set_command_status [simp]:
  "cmd_status (set_command_status s err now c) = s"
  by (simp add: set_command_status_def)









subsection \<open>Raising alerts\<close>


text \<open>
  An alert whose id or gateway id does not fit its \<open>varchar(64)\<close> column is not
  stored: \<open>createAlert\<close> returns no row and leaves the table as it was.
\<close>

lemma createAlert_too_wide:
  assumes "64 < length (ali_id a) \<or> 64 < length (ali_gatewayId a)"
  shows "createAlert (Some d) a now = (None, Some d)"
  using assms by (auto simp: createAlert_def varchar_def)




subsection \<open>Resolving alerts\<close>

lemma resolve_rows_twice:
  "map (\<lambda>x. if al_id x = aid then x\<lparr>al_isResolved := True, al_resolvedAt := Some t2\<rparr> else x)
     (map (\<lambda>x. if al_id x = aid then x\<lparr>al_isResolved := True, al_resolvedAt := Some t1\<rparr> else x) xs)
   = map (\<lambda>x. if al_id x = aid then x\<lparr>al_isResolved := True, al_resolvedAt := Some t2\<rparr> else x) xs"
  by (induction xs) auto

lemma resolve_rows_others:
  "filter (\<lambda>x. al_id x \<noteq> aid)
     (map (\<lambda>x. if al_id x = aid then x\<lparr>al_isResolved := True, al_resolvedAt := Some t\<rparr> else x) xs)
   = filter (\<lambda>x. al_id x \<noteq> aid) xs"
  by (induction xs) auto

lemma resolve_rows_resolved:
  "list_all (\<lambda>x. al_isResolved x \<and> al_resolvedAt x = Some t)
     (filter (\<lambda>x. al_id x = aid)
        (map (\<lambda>x. if al_id x = aid then x\<lparr>al_isResolved := True, al_resolvedAt := Some t\<rparr> else x) xs))"
  by (induction xs) auto

text \<open>
  Claim C7 (resolve), as amended. \<open>resolveAlert\<close> sets \<open>isResolved = true\<close> and
  \<open>resolvedAt = now\<close> on every call, on an already resolved alert too: after a first
  resolve at \<open>t1\<close> the alert is resolved at \<open>t1\<close>; after a second resolve at \<open>t2\<close>
  every row with that id is resolved with \<open>resolvedAt = t2\<close>, the rows of other alerts
  are untouched, and the database is the one a single resolve at \<open>t2\<close> gives.
\<close>

theorem C7_resolve_overwrites_resolvedAt:
  assumes "a \<in> set (alerts d)" and "al_id a = alertId"
  shows "\<exists>d1 d2. resolveAlert (Some d) alertId t1 = Some d1
           \<and> resolveAlert (Some d1) alertId t2 = Some d2
           \<and> a\<lparr>al_isResolved := True, al_resolvedAt := Some t1\<rparr> \<in> set (alerts d1)
           \<and> a\<lparr>al_isResolved := True, al_resolvedAt := Some t2\<rparr> \<in> set (alerts d2)
           \<and> list_all (\<lambda>x. al_isResolved x \<and> al_resolvedAt x = Some t2)
                (filter (\<lambda>x. al_id x = alertId) (alerts d2))
           \<and> filter (\<lambda>x. al_id x \<noteq> alertId) (alerts d2)
               = filter (\<lambda>x. al_id x \<noteq> alertId) (alerts d)
           \<and> resolveAlert (Some d) alertId t2 = Some d2"
proof -
  let ?f = "\<lambda>t x. if al_id x = alertId then x\<lparr>al_isResolved := True, al_resolvedAt := Some t\<rparr> else x"
  let ?d1 = "d\<lparr>alerts := map (?f t1) (alerts d)\<rparr>"
  let ?d2 = "d\<lparr>alerts := map (?f t2) (alerts d)\<rparr>"
  have r1: "resolveAlert (Some d) alertId t1 = Some ?d1"
    by (simp add: resolveAlert_def)
  have r2: "resolveAlert (Some ?d1) alertId t2 = Some ?d2"
    by (simp add: resolveAlert_def resolve_rows_twice)
  have r3: "resolveAlert (Some d) alertId t2 = Some ?d2"
    by (simp add: resolveAlert_def)
  have m1: "a\<lparr>al_isResolved := True, al_resolvedAt := Some t1\<rparr> \<in> set (alerts ?d1)"
    using assms by force
  have m2: "a\<lparr>al_isResolved := True, al_resolvedAt := Some t2\<rparr> \<in> set (alerts ?d2)"
    using assms by force
  have all: "list_all (\<lambda>x. al_isResolved x \<and> al_resolvedAt x = Some t2)
                (filter (\<lambda>x. al_id x = alertId) (alerts ?d2))"
    by (simp add: resolve_rows_resolved)
  have others: "filter (\<lambda>x. al_id x \<noteq> alertId) (alerts ?d2)
               = filter (\<lambda>x. al_id x \<noteq> alertId) (alerts d)"
    by (simp add: resolve_rows_others)
  show ?thesis
    using r1 r2 r3 m1 m2 all others by blast
qed

text \<open>The witness of C7: alert \<open>al-1\<close> resolved at 5000 and again at 9000.\<close>

theorem C7_resolve_overwrites_resolvedAt_witness:
  "(let a = \<lparr>al_id = ''al-1'', al_gatewayId = ''gw-1'', al_alertType = AlertOffline,
              al_severity = Warning, al_message = ''gateway offline'', al_isResolved = False,
              al_createdAt = 1000, al_resolvedAt = None\<rparr>
    in a \<in> set (alerts one_alert_database) \<and> al_id a = ''al-1''
       \<and> (\<exists>d1 d2. resolveAlert (Some one_alert_database) ''al-1'' 5000 = Some d1
             \<and> resolveAlert (Some d1) ''al-1'' 9000 = Some d2
             \<and> a\<lparr>al_isResolved := True, al_resolvedAt := Some 5000\<rparr> \<in> set (alerts d1)
             \<and> a\<lparr>al_isResolved := True, al_resolvedAt := Some 9000\<rparr> \<in> set (alerts d2)))"
proof -
  let ?a = "\<lparr>al_id = ''al-1'', al_gatewayId = ''gw-1'', al_alertType = AlertOffline,
              al_severity = Warning, al_message = ''gateway offline'', al_isResolved = False,
              al_createdAt = 1000, al_resolvedAt = None\<rparr>"
  have mem: "?a \<in> set (alerts one_alert_database)"
    by (simp add: one_alert_database_def)
  have aid: "al_id ?a = ''al-1''"
    by simp
  from C7_resolve_overwrites_resolvedAt [OF mem aid, of 5000 9000] mem aid
  show ?thesis
    unfolding Let_def by blast
qed

text \<open>
  The counterexample to C7 as stated: \<open>al-1\<close> is resolved at time 5000 and resolved
  again at time 9000. The second call is not a no-op: \<open>resolvedAt\<close> becomes 9000 and
  the database differs from the one after the first call.
\<close>

theorem C7_second_resolve_changes_resolvedAt:
  "(let db1 = alerts_resolve (Some one_alert_database) ''al-1'' 5000;
        db2 = alerts_resolve db1 ''al-1'' 9000
    in map al_isResolved (listAlerts db1 None False) = [True]
       \<and> map al_resolvedAt (listAlerts db1 None False) = [Some 5000]
       \<and> map al_isResolved (listAlerts db2 None False) = [True]
       \<and> map al_resolvedAt (listAlerts db2 None False) = [Some 9000]
       \<and> db2 \<noteq> db1)"
  by (simp add: base_eval_defs db_eval_defs one_alert_database_def)

subsection \<open>Pending commands\<close>

text \<open>
  Claim C8 (no commands for devices that are not registered), as amended. The
  pending-command retrieval reads the \<open>lwm2m_commands\<close> table only: its result does not
  depend on the \<open>gateways\<close> table nor on the registered-clients map, and it consists of
  exactly the commands of that gateway whose status is \<open>pending\<close>.
\<close>

theorem C8_listPending_ignores_registration:
  "listPendingCommands (Some (d\<lparr>gateways := gs\<rparr>)) gatewayId
     = listPendingCommands (Some d) gatewayId
   \<and> commands_listPending (srv_db (st\<lparr>registeredClients := rc\<rparr>)) gatewayId
     = commands_listPending (srv_db st) gatewayId
   \<and> (c \<in> set (listPendingCommands (Some d) gatewayId))
     = (c \<in> set (lwm2mCommands d) \<and> cmd_gatewayId c = gatewayId \<and> cmd_status c = Pending)"
  by (auto simp: listPendingCommands_def)

text \<open>
  The counterexample to C8 as stated: \<open>rv50x-01\<close> registers and deregisters, so its
  gateway is \<open>offline\<close> and it is not in the registered-clients map; two commands are
  submitted for it, and the pending-command retrieval returns both.
\<close>

theorem C8_pending_commands_for_offline_device:
  "(let s1 = serve server0
               [(register_request ''rv50x-01'' ''60'', response0, clock_at 1000),
                (deregister_request ''rv50x-01'', response0, clock_at 2000)];
        gid = ''gw-rv50x-01-1000'';
        (r1, db1) = commands_create (srv_db s1) gid ''res-1'' Write (Some ''reboot'') 3000 3000;
        (r2, db2) = commands_create db1 gid ''res-2'' Read None 4000 4000
    in map_option gw_status (getGateway (srv_db s1) gid) = Some Offline
       \<and> \<not> isClientRegistered s1 ''rv50x-01''
       \<and> map_option gw_status (getGateway db2 gid) = Some Offline
       \<and> map cmd_id (commands_listPending db2 gid)
           = [''cmd-gw-rv50x-01-1000-res-1-3000'', ''cmd-gw-rv50x-01-1000-res-2-4000''])"
  by (simp add: base_eval_defs eval_defs db_eval_defs getGateway_def)

end
